theory Spec2Isabelle
  imports Main "HOL-Library.Sublist"
begin

section \<open>Strings and the line-sync utility (src/src/Replacer.js)\<close>

text \<open>
  Source strings are modelled as lists of 8-bit characters. The two characters the
  newline pattern of the replacer looks at are carriage return and line feed.
\<close>

definition CR :: char where
  "CR = CHR 0x0D"

definition LF :: char where
  "LF = CHR 0x0A"

text \<open>
  \<^verbatim>\<open>countNewlines(text)\<close>: the number of matches of \<^verbatim>\<open>/\r\n?|\n/g\<close>. The global
  match scans from the left; at a carriage return the alternative \<^verbatim>\<open>\r\n?\<close> takes
  a following line feed into the same match.
\<close>

fun countNewlines :: "string \<Rightarrow> nat" where
  "countNewlines [] = 0"
| "countNewlines [c] = (if c = CR \<or> c = LF then 1 else 0)"
| "countNewlines (c # d # cs) =
     (if c = CR \<and> d = LF then Suc (countNewlines cs)
      else if c = CR \<or> c = LF then Suc (countNewlines (d # cs))
      else countNewlines (d # cs))"

text \<open>
  \<^verbatim>\<open>preserveNewlines(text, height)\<close>: when \<^verbatim>\<open>height > 0 && n < height\<close> the text is
  extended by \<^verbatim>\<open>"\n".repeat(height - n)\<close>.
\<close>

definition preserveNewlines :: "string \<Rightarrow> int \<Rightarrow> string" where
  "preserveNewlines text height =
     (let n = int (countNewlines text)
      in if height > 0 \<and> n < height then text @ replicate (nat (height - n)) LF else text)"


section \<open>Scanner positions and parser errors (src/build/es6now.js)\<close>

text \<open>
  A read \<^verbatim>\<open>array[i]\<close> outside the array yields \<^verbatim>\<open>undefined\<close>, modelled as \<open>None\<close>.
\<close>

definition array_get :: "'a list \<Rightarrow> int \<Rightarrow> 'a option" where
  "array_get xs i = (if 0 \<le> i \<and> i < int (length xs) then Some (xs ! nat i) else None)"

text \<open>
  \<^verbatim>\<open>binarySearch(array, val)\<close>. Both comparisons with \<^verbatim>\<open>undefined\<close> are false, so an
  out-of-range probe would return \<^verbatim>\<open>mid\<close>.
\<close>

function binarySearch_loop :: "int list \<Rightarrow> int \<Rightarrow> int \<Rightarrow> int \<Rightarrow> int" where
  "binarySearch_loop array val left right =
     (if left \<le> right then
        (let mid = (left + right) div 2
         in case array_get array mid of
              None \<Rightarrow> mid
            | Some test \<Rightarrow>
                if val > test then binarySearch_loop array val (mid + 1) right
                else if val < test then binarySearch_loop array val left (mid - 1)
                else mid)
      else left)"
  by pat_completeness auto
termination
  by (relation "measure (\<lambda>(array, val, left, right). nat (right - left + 1))") auto

definition binarySearch :: "int list \<Rightarrow> int \<Rightarrow> int" where
  "binarySearch array val = binarySearch_loop array val 0 (int (length array) - 1)"

text \<open>The span of a token, and what \<^verbatim>\<open>Scanner.position\<close> returns.\<close>

record token_span =
  tok_start :: int
  tok_end :: int

record position =
  pos_line :: int
  pos_column :: "int option"
  pos_startOffset :: int
  pos_endOffset :: int
  pos_lineOffset :: "int option"

text \<open>
  \<^verbatim>\<open>Scanner.position(token)\<close> over the line table \<^verbatim>\<open>this.lines\<close>; the caller has
  already resolved \<^verbatim>\<open>token || (token = this)\<close>. A missing table entry makes the
  column and the line offset \<^verbatim>\<open>NaN\<close>, modelled as \<open>None\<close>.
\<close>

definition Scanner_position :: "int list \<Rightarrow> token_span \<Rightarrow> position" where
  "Scanner_position lines token =
     (let offset = tok_start token;
          line = binarySearch lines offset;
          pos = array_get lines (line - 1)
      in \<lparr> pos_line = line,
           pos_column = map_option (\<lambda>p. offset - p) pos,
           pos_startOffset = offset,
           pos_endOffset = tok_end token,
           pos_lineOffset = map_option (\<lambda>p. p + 1) pos \<rparr>)"

text \<open>
  The syntax error object. A property that was never assigned reads as
  \<^verbatim>\<open>undefined\<close>, modelled as \<open>None\<close>; \<^verbatim>\<open>new SyntaxError(msg)\<close> sets the message only.
\<close>

record syntax_error =
  err_message :: string
  err_line :: "int option"
  err_column :: "int option"
  err_lineOffset :: "int option"
  err_startOffset :: "int option"
  err_endOffset :: "int option"

definition new_SyntaxError :: "string \<Rightarrow> syntax_error" where
  "new_SyntaxError msg =
     \<lparr> err_message = msg, err_line = None, err_column = None, err_lineOffset = None,
       err_startOffset = None, err_endOffset = None \<rparr>"

text \<open>
  \<^verbatim>\<open>Parser.fail(msg, loc)\<close>, returning the error it throws. \<open>loc\<close> is the argument,
  \<open>peek0\<close> the parser's lookahead token and \<open>cur\<close> the scanner's current token, which
  \<^verbatim>\<open>position\<close> falls back to. The column is assigned from the error object itself:
  \<^verbatim>\<open>err.column = err.column\<close>.
\<close>

definition Parser_fail ::
  "int list \<Rightarrow> token_span \<Rightarrow> token_span option \<Rightarrow> string \<Rightarrow> token_span option \<Rightarrow> syntax_error"
where
  "Parser_fail lines cur peek0 msg loc =
     (let tok = (case loc of Some l \<Rightarrow> l | None \<Rightarrow> (case peek0 of Some p \<Rightarrow> p | None \<Rightarrow> cur));
          pos = Scanner_position lines tok;
          err = new_SyntaxError msg;
          err = err\<lparr>err_line := Some (pos_line pos)\<rparr>;
          err = err\<lparr>err_column := err_column err\<rparr>;
          err = err\<lparr>err_lineOffset := pos_lineOffset pos\<rparr>;
          err = err\<lparr>err_startOffset := Some (pos_startOffset pos)\<rparr>;
          err = err\<lparr>err_endOffset := Some (pos_endOffset pos)\<rparr>
      in err)"

section \<open>The binary-expression loop of the parser (src/build/es6now.js)\<close>















section \<open>Strings and values of the host language\<close>

text \<open>
  \<^verbatim>\<open>s.slice(a, b)\<close>: a negative index counts from the end, both indices are clamped to
  the string, and the result is empty when the second is not beyond the first.
\<close>

definition js_slice :: "string \<Rightarrow> int \<Rightarrow> int \<Rightarrow> string" where
  "js_slice s a b =
     (let len = int (length s);
          from = (if a < 0 then max (len + a) 0 else min a len);
          to = (if b < 0 then max (len + b) 0 else min b len)
      in take (nat (to - from)) (drop (nat from) s))"

text \<open>The decimal digits of a non-negative integer, as string concatenation writes it.\<close>

definition digit_char :: "nat \<Rightarrow> char" where
  "digit_char d =
     (if d = 0 then CHR ''0'' else if d = 1 then CHR ''1'' else if d = 2 then CHR ''2''
      else if d = 3 then CHR ''3'' else if d = 4 then CHR ''4'' else if d = 5 then CHR ''5''
      else if d = 6 then CHR ''6'' else if d = 7 then CHR ''7'' else if d = 8 then CHR ''8''
      else CHR ''9'')"

function show_nat :: "nat \<Rightarrow> string" where
  "show_nat n =
     (if n < 10 then [digit_char n]
      else show_nat (n div 10) @ [digit_char (n mod 10)])"
  by pat_completeness auto
termination
  by (relation "measure (\<lambda>n. n)") auto

text \<open>\<^verbatim>\<open>list.join(sep)\<close>.\<close>

fun join :: "string \<Rightarrow> string list \<Rightarrow> string" where
  "join sep [] = []"
| "join sep [x] = x"
| "join sep (x # y # ys) = x @ sep @ join sep (y # ys)"

text \<open>
  \<^verbatim>\<open>JSON.stringify\<close> of a string: the text in double quotes, with the quote, the
  backslash and the control characters escaped.
\<close>

definition hex_digit :: "nat \<Rightarrow> char" where
  "hex_digit n =
     (if n < 10 then digit_char n
      else if n = 10 then CHR ''a'' else if n = 11 then CHR ''b'' else if n = 12 then CHR ''c''
      else if n = 13 then CHR ''d'' else if n = 14 then CHR ''e'' else CHR ''f'')"

definition json_escape :: "char \<Rightarrow> string" where
  "json_escape c =
     (if c = CHR 0x22 then [CHR 0x5C, CHR 0x22]
      else if c = CHR 0x5C then [CHR 0x5C, CHR 0x5C]
      else if c = CHR 0x08 then [CHR 0x5C, CHR ''b'']
      else if c = CHR 0x0C then [CHR 0x5C, CHR ''f'']
      else if c = CHR 0x0A then [CHR 0x5C, CHR ''n'']
      else if c = CHR 0x0D then [CHR 0x5C, CHR ''r'']
      else if c = CHR 0x09 then [CHR 0x5C, CHR ''t'']
      else if of_char c < (32 :: nat) then
        [CHR 0x5C, CHR ''u'', CHR ''0'', CHR ''0'',
         hex_digit (of_char c div 16), hex_digit (of_char c mod 16)]
      else [c])"

definition JSON_stringify :: "string \<Rightarrow> string" where
  "JSON_stringify s = [CHR 0x22] @ concat (map json_escape s) @ [CHR 0x22]"

section \<open>The syntax tree and the state of the replacer (src/src/Replacer.js)\<close>

text \<open>
  A node carries its type, its span and its attributes; \<open>nkids\<close> is the list that
  \<^verbatim>\<open>node.children()\<close> returns, in source order. A named attribute is a string, a
  boolean, \<^verbatim>\<open>null\<close>, one child (its index in \<open>nkids\<close>) or an array of children, in
  which \<open>None\<close> is a hole. The parser that builds the tree (package \<^verbatim>\<open>esparse\<close>) is not
  among the sources; its result is an argument of the model.
\<close>

datatype fval = Str string | Flag bool | Null | Ref nat | Refs "nat option list"

datatype node =
  Node (ntype: string) (nstart: int) (nend: int) (nfields: "(string \<times> fval) list")
    (nkids: "node list")

text \<open>
  A node is identified by its path: the child indices that lead to it, innermost
  first, so that the tail of a path is \<^verbatim>\<open>node.parent\<close> and the empty path is the root.
\<close>

type_synonym path = "nat list"

definition kid :: "node \<Rightarrow> nat \<Rightarrow> node option" where
  "kid n i = (if i < length (nkids n) then Some (nkids n ! i) else None)"

fun node_at :: "node \<Rightarrow> path \<Rightarrow> node option" where
  "node_at root [] = Some root"
| "node_at root (i # p) = (case node_at root p of None \<Rightarrow> None | Some n \<Rightarrow> kid n i)"

definition field :: "node \<Rightarrow> string \<Rightarrow> fval option" where
  "field n name = map_of (nfields n) name"

text \<open>
  Errors as values: \<open>SyntaxError\<close> is what the parser raises; \<open>TypeError\<close> is what
  reading a property of \<^verbatim>\<open>null\<close> or \<^verbatim>\<open>undefined\<close> raises; \<open>Unsupported\<close> marks a
  rewriting rule of the replacer that this development does not embed.
\<close>

datatype error = SyntaxError | TypeError | Unsupported

definition then_do :: "error + 'a \<Rightarrow> ('a \<Rightarrow> error + 'b) \<Rightarrow> error + 'b" where
  "then_do r f = (case r of Inl e \<Rightarrow> Inl e | Inr v \<Rightarrow> f v)"

definition need :: "'a option \<Rightarrow> error + 'a" where
  "need x = (case x of None \<Rightarrow> Inl TypeError | Some v \<Rightarrow> Inr v)"

text \<open>The path of the child held by a named attribute, and the paths of an array.\<close>

definition child_path :: "node \<Rightarrow> path \<Rightarrow> string \<Rightarrow> path option" where
  "child_path n p name = (case field n name of Some (Ref i) \<Rightarrow> Some (i # p) | _ \<Rightarrow> None)"

definition child_paths :: "node \<Rightarrow> path \<Rightarrow> string \<Rightarrow> path option list option" where
  "child_paths n p name =
     (case field n name of
        Some (Refs is) \<Rightarrow> Some (map (map_option (\<lambda>i. i # p)) is)
      | _ \<Rightarrow> None)"

definition str_field :: "node \<Rightarrow> string \<Rightarrow> string option" where
  "str_field n name = (case field n name of Some (Str v) \<Rightarrow> Some v | _ \<Rightarrow> None)"

text \<open>An entry of \<^verbatim>\<open>tempVars\<close>; a value that is not a string is \<open>None\<close>.\<close>

record tempvar =
  tv_name :: string
  tv_value :: "string option"
  tv_noDeclare :: bool

text \<open>
  What the replacer writes on a node: its text, a changed start offset, and the
  annotations. An annotation that was never set reads as \<open>False\<close> or \<open>None\<close>.
\<close>

record annots =
  a_text :: "string option"
  a_start :: "int option"
  createThisBinding :: bool
  createRestBinding :: bool
  tempVars :: "tempvar list option"
  hasSpreadArg :: bool
  isSuperCall :: bool
  isSuperLookup :: bool
  computedNames :: "string list option"

definition no_annots :: annots where
  "no_annots =
     \<lparr> a_text = None, a_start = None, createThisBinding = False, createRestBinding = False,
       tempVars = None, hasSpreadArg = False, isSuperCall = False, isSuperLookup = False,
       computedNames = None \<rparr>"

text \<open>
  The transient state of one \<^verbatim>\<open>replace\<close> call. An export map keeps its keys in
  insertion order, as \<^verbatim>\<open>Object.keys\<close> lists the names of identifiers; the current map
  \<^verbatim>\<open>this.exports\<close> is the head of the stack.
\<close>

record rstate =
  ann :: "path \<Rightarrow> annots"
  exportStack :: "(string \<times> string) list list"
  imports_map :: "(string \<times> string) list"
  dependencies :: "string list"
  uid :: nat
  isStrict :: bool

definition update_ann :: "path \<Rightarrow> (annots \<Rightarrow> annots) \<Rightarrow> rstate \<Rightarrow> rstate" where
  "update_ann p f st = st\<lparr>ann := (ann st)(p := f (ann st p))\<rparr>"

definition cur_start :: "rstate \<Rightarrow> path \<Rightarrow> node \<Rightarrow> int" where
  "cur_start st p n = (case a_start (ann st p) of Some s \<Rightarrow> s | None \<Rightarrow> nstart n)"

text \<open>\<^verbatim>\<open>node.text\<close> in a concatenation; \<^verbatim>\<open>null\<close> is written out as the word.\<close>

definition text_of :: "rstate \<Rightarrow> path \<Rightarrow> string" where
  "text_of st p = (case a_text (ann st p) of Some t \<Rightarrow> t | None \<Rightarrow> ''null'')"

text \<open>
  Modelled from the spec: \<^verbatim>\<open>parser.location(offset).line\<close>, of the parser that is not
  among the sources. The line of an offset is the binary search of the offset in the
  line table, which is how \<^verbatim>\<open>Scanner.position\<close> of src/build/es6now.js computes it; the
  table starts with \<open>-1\<close> and holds the offset of every line break in source order.
\<close>

definition lineNumber :: "int list \<Rightarrow> int \<Rightarrow> int" where
  "lineNumber lines offset = binarySearch lines offset"

definition syncNewlines :: "int list \<Rightarrow> int \<Rightarrow> int \<Rightarrow> string \<Rightarrow> string" where
  "syncNewlines lines start end_offset text =
     (let height = lineNumber lines (end_offset - 1) - lineNumber lines start
      in preserveNewlines text height)"

text \<open>\<^verbatim>\<open>stringify(node)\<close>: the loop over the children, then the rest of the span.\<close>

fun stringify_children ::
  "string \<Rightarrow> rstate \<Rightarrow> path \<Rightarrow> nat \<Rightarrow> node list \<Rightarrow> int \<Rightarrow> string \<Rightarrow> int \<times> string"
where
  "stringify_children input st p i [] offset text = (offset, text)"
| "stringify_children input st p i (child # rest) offset text =
     (let text1 = (if offset < cur_start st (i # p) child
                   then text @ js_slice input offset (cur_start st (i # p) child)
                   else text);
          text2 = text1 @ text_of st (i # p)
      in stringify_children input st p (Suc i) rest (nend child) text2)"

definition stringify :: "string \<Rightarrow> rstate \<Rightarrow> path \<Rightarrow> node \<Rightarrow> string" where
  "stringify input st p n =
     (case stringify_children input st p 0 (nkids n) (cur_start st p n) [] of
        (offset, text) \<Rightarrow>
          if offset < nend n then text @ js_slice input offset (nend n) else text)"

text \<open>
  \<^verbatim>\<open>joinList(list)\<close>. The list holds nodes or objects with a start, an end and a text;
  an item is the triple of these.
\<close>

fun joinList_loop :: "string \<Rightarrow> (int \<times> int \<times> string) list \<Rightarrow> int \<Rightarrow> string \<Rightarrow> string" where
  "joinList_loop input [] offset text = text"
| "joinList_loop input ((cstart, cend, ctext) # rest) offset text =
     (let text1 = (if offset \<ge> 0 \<and> offset < cstart
                   then text @ js_slice input offset cstart else text)
      in joinList_loop input rest cend (text1 @ ctext))"

definition joinList :: "string \<Rightarrow> (int \<times> int \<times> string) list \<Rightarrow> string" where
  "joinList input list = joinList_loop input list (-1) []"

text \<open>\<^verbatim>\<open>parentFunction(node)\<close>: the nearest ancestor that is a function or the program.\<close>

definition is_function_type :: "string \<Rightarrow> bool" where
  "is_function_type t \<longleftrightarrow>
     t = ''ArrowFunction'' \<or> t = ''FunctionDeclaration'' \<or> t = ''FunctionExpression'' \<or>
     t = ''MethodDefinition'' \<or> t = ''Script'' \<or> t = ''Module''"

fun parentFunction :: "node \<Rightarrow> path \<Rightarrow> path option" where
  "parentFunction root [] = None"
| "parentFunction root (i # p) =
     (case node_at root p of
        None \<Rightarrow> None
      | Some n \<Rightarrow> if is_function_type (ntype n) then Some p else parentFunction root p)"

text \<open>\<^verbatim>\<open>addTempVar(node, value, noDeclare)\<close>, returning the name and the new state.\<close>

definition addTempVar ::
  "node \<Rightarrow> rstate \<Rightarrow> path \<Rightarrow> string option \<Rightarrow> bool \<Rightarrow> error + (string \<times> rstate)"
where
  "addTempVar root st p v noDeclare =
     then_do (need (parentFunction root p)) (\<lambda>fn.
       (let list = (case tempVars (ann st fn) of None \<Rightarrow> [] | Some l \<Rightarrow> l);
            name = ''__$'' @ show_nat (length list);
            item = \<lparr> tv_name = name, tv_value = v, tv_noDeclare = noDeclare \<rparr>
        in Inr (name, update_ann fn (\<lambda>a. a\<lparr>tempVars := Some (list @ [item])\<rparr>) st)))"

text \<open>\<^verbatim>\<open>tempVars(node)\<close>: the declaration of the temporaries of a function.\<close>

definition tempVars_text :: "rstate \<Rightarrow> path \<Rightarrow> string" where
  "tempVars_text st fn =
     (case tempVars (ann st fn) of
        None \<Rightarrow> []
      | Some l \<Rightarrow>
          (let list = filter (\<lambda>item. \<not> tv_noDeclare item) l
           in if list = [] then []
              else ''var '' @
                   join '', '' (map (\<lambda>item. case tv_value item of
                                              Some v \<Rightarrow> tv_name item @ '' = '' @ v
                                            | None \<Rightarrow> tv_name item) list) @
                   '';''))"


text \<open>The child held by a named attribute, with its path, and the children of an array.\<close>

definition child :: "node \<Rightarrow> path \<Rightarrow> string \<Rightarrow> (node \<times> path) option" where
  "child n p name =
     (case field n name of
        Some (Ref i) \<Rightarrow> (case kid n i of Some c \<Rightarrow> Some (c, i # p) | None \<Rightarrow> None)
      | _ \<Rightarrow> None)"

definition children_of :: "node \<Rightarrow> path \<Rightarrow> string \<Rightarrow> (node \<times> path) option list option" where
  "children_of n p name =
     (case field n name of
        Some (Refs is) \<Rightarrow>
          Some (map (\<lambda>r. case r of None \<Rightarrow> None
                           | Some i \<Rightarrow> (case kid n i of Some c \<Rightarrow> Some (c, i # p) | None \<Rightarrow> None)) is)
      | _ \<Rightarrow> None)"

text \<open>The items of a list of nodes, for \<^verbatim>\<open>joinList\<close>; a hole has no properties to read.\<close>

fun node_items :: "rstate \<Rightarrow> (node \<times> path) option list \<Rightarrow> error + (int \<times> int \<times> string) list" where
  "node_items st [] = Inr []"
| "node_items st (None # rest) = Inl TypeError"
| "node_items st (Some (c, cp) # rest) =
     then_do (node_items st rest) (\<lambda>items. Inr ((cur_start st cp c, nend c, text_of st cp) # items))"

text \<open>A value that may be \<^verbatim>\<open>undefined\<close>, written into a string.\<close>

definition js_str :: "string option \<Rightarrow> string" where
  "js_str v = (case v of None \<Rightarrow> ''undefined'' | Some t \<Rightarrow> t)"

definition isPattern :: "node \<Rightarrow> bool" where
  "isPattern n \<longleftrightarrow> ntype n = ''ArrayPattern'' \<or> ntype n = ''ObjectPattern''"

section \<open>Destructuring patterns\<close>

text \<open>
  \<^verbatim>\<open>PatternTreeNode\<close>. The initializer is \<^verbatim>\<open>null\<close> or a string, and only a non-empty
  string counts as present.
\<close>

datatype ptree =
  PatternTreeNode (pt_name: string) (pt_initializer: "string option") (pt_children: "ptree list")
    (pt_target: string) (pt_rest: bool)

definition truthy :: "string option \<Rightarrow> bool" where
  "truthy v \<longleftrightarrow> (case v of None \<Rightarrow> False | Some t \<Rightarrow> t \<noteq> [])"

text \<open>Facts for the termination proofs: a child is smaller than its parent.\<close>

lemma then_do_cong [fundef_cong]:
  "r = r' \<Longrightarrow> (\<And>v. r' = Inr v \<Longrightarrow> f v = f' v) \<Longrightarrow> then_do r f = then_do r' f'"
  by (auto simp: then_do_def split: sum.splits)

lemma kid_size: "kid n i = Some c \<Longrightarrow> size c < size n"
proof -
  assume "kid n i = Some c"
  then have "c \<in> set (nkids n)"
    by (auto simp: kid_def split: if_splits)
  then have "size c \<le> size_list size (nkids n)"
    by (simp add: size_list_estimation')
  then show ?thesis by (cases n) simp
qed

lemma child_size: "child n p name = Some (c, cp) \<Longrightarrow> size c < size n"
  using kid_size by (auto simp: child_def split: option.splits fval.splits)

lemma children_of_size:
  "children_of n p name = Some cs \<Longrightarrow> Some (c, cp) \<in> set cs \<Longrightarrow> size c < size n"
  using kid_size by (auto simp: children_of_def split: option.splits fval.splits)

text \<open>
  \<^verbatim>\<open>createPatternTree(ast, parent)\<close>, returning the parent it fills. The two
  \<^verbatim>\<open>forEach\<close> loops are folds over the elements with their indices and over the
  properties; the child pushed onto the parent is the one the recursive call has filled.
\<close>

function createPatternTree :: "rstate \<Rightarrow> node \<Rightarrow> path \<Rightarrow> ptree \<Rightarrow> error + ptree" where
  "createPatternTree st ast p parent =
     (if ntype ast = ''ArrayPattern'' then
        then_do (need (children_of ast p ''elements'')) (\<lambda>elements.
          fold (\<lambda>(i, e) acc.
                  then_do acc (\<lambda>parent.
                    case e of
                      None \<Rightarrow> Inr parent
                    | Some (elem, ep) \<Rightarrow>
                        (let init = (case child elem ep ''initializer'' of
                                       Some (_, ip) \<Rightarrow> text_of st ip | None \<Rightarrow> []);
                             child0 = PatternTreeNode (show_nat i) (Some init) [] []
                                        (ntype elem = ''PatternRestElement'')
                         in then_do (need (child elem ep ''pattern'')) (\<lambda>(pat, pp).
                            then_do (createPatternTree st pat pp child0) (\<lambda>child1.
                              Inr (PatternTreeNode (pt_name parent) (pt_initializer parent)
                                     (pt_children parent @ [child1]) (pt_target parent)
                                     (pt_rest parent)))))))
               (zip [0 ..< length elements] elements) (Inr parent))
      else if ntype ast = ''ObjectPattern'' then
        then_do (need (children_of ast p ''properties'')) (\<lambda>properties.
          fold (\<lambda>e acc.
                  then_do acc (\<lambda>parent.
                    case e of
                      None \<Rightarrow> Inl TypeError
                    | Some (prop, pp) \<Rightarrow>
                        (let init = (case child prop pp ''initializer'' of
                                       Some (_, ip) \<Rightarrow> text_of st ip | None \<Rightarrow> [])
                         in then_do (need (child prop pp ''name'')) (\<lambda>(name, np).
                            then_do (createPatternTree st
                                       (case child prop pp ''pattern'' of
                                          Some (pat, _) \<Rightarrow> pat | None \<Rightarrow> name)
                                       (case child prop pp ''pattern'' of
                                          Some (_, patp) \<Rightarrow> patp | None \<Rightarrow> np)
                                       (PatternTreeNode (text_of st np) (Some init) [] [] False))
                              (\<lambda>child1.
                                 Inr (PatternTreeNode (pt_name parent) (pt_initializer parent)
                                        (pt_children parent @ [child1]) (pt_target parent)
                                        (pt_rest parent)))))))
               properties (Inr parent))
      else
        Inr (PatternTreeNode (pt_name parent) (pt_initializer parent) (pt_children parent)
               (text_of st p) (pt_rest parent)))"
  by pat_completeness auto
termination
proof (relation "measure (\<lambda>(st, ast, p, parent). size ast)", goal_cases)
  case 1
  show ?case by simp
next
  case (2 st ast p parent elements x i e acc parent' ec elem ep init child0 v pat pp)
  from 2 have "Some (elem, ep) \<in> set elements"
    by (auto dest: set_zip_rightD)
  moreover from 2 have "children_of ast p ''elements'' = Some elements"
    by (auto simp: need_def split: option.splits)
  ultimately have "size elem < size ast"
    by (rule children_of_size [rotated])
  moreover from 2 have "size pat < size elem"
    by (auto simp: need_def split: option.splits dest: child_size)
  ultimately show ?case by simp
next
  case (3 st ast p parent properties e acc parent' ec pr pp init v nm np)
  from 3 have "children_of ast p ''properties'' = Some properties"
    by (auto simp: need_def split: option.splits)
  moreover from 3 have "Some (pr, pp) \<in> set properties" by auto
  ultimately have "size pr < size ast"
    by (rule children_of_size)
  moreover from 3 have "size nm < size pr"
    by (auto simp: need_def split: option.splits dest: child_size)
  ultimately show ?case
    by (auto split: option.splits dest: child_size)
qed


text \<open>
  \<^verbatim>\<open>translatePattern(node, base)\<close>: the inner \<^verbatim>\<open>visit\<close> over the pattern tree threads the
  replacer state and the two lists \<^verbatim>\<open>outer\<close> and \<^verbatim>\<open>inner\<close>; \<open>np\<close> is the path of the
  pattern node, to which the temporaries are added.
\<close>

definition translate_step ::
  "node \<Rightarrow> path \<Rightarrow> ptree \<Rightarrow> string \<Rightarrow> rstate \<times> string list \<times> string list \<Rightarrow>
   error + ((rstate \<times> string list \<times> string list) \<times> string)"
where
  "translate_step root np tree base acc =
     (case acc of (st, outer, inner) \<Rightarrow>
        (let name = pt_name tree; init = pt_initializer tree; target = pt_target tree;
             access =
               (if pt_rest tree then ''_es6now.rest('' @ base @ '', '' @ name @ '')''
                else if name \<noteq> [] then base @ ''['' @ JSON_stringify name @ '']''
                else base)
         in then_do
              (if truthy init then
                 then_do (addTempVar root st np None False) (\<lambda>(temp, st1).
                   (let str = temp @ '' === void 0 ? '' @ js_str init @ '' : '' @ temp;
                        str2 = (if target = [] then temp @ '' = _es6now.obj('' @ str @ '')''
                                else str)
                    in Inr (st1, inner @ [temp @ '' = '' @ access, str2], Some temp)))
               else if target \<noteq> [] then Inr (st, inner @ [access], None)
               else
                 then_do (addTempVar root st np None False) (\<lambda>(temp, st1).
                   Inr (st1, inner @ [temp @ '' = _es6now.obj('' @ access @ '')''], Some temp)))
              (\<lambda>(st1, inner1, temp).
                 (let outer2 =
                        (if target \<noteq> [] then
                           outer @ [if length inner1 = 1 then target @ '' = '' @ hd inner1
                                    else target @ '' = ('' @ join '', '' inner1 @ '')'']
                         else outer);
                      inner2 = (if target \<noteq> [] then [] else inner1);
                      base2 = (if truthy temp then js_str temp else base)
                  in Inr ((st1, outer2, inner2), base2)))))"

function translate_visit ::
    "node \<Rightarrow> path \<Rightarrow> ptree \<Rightarrow> string \<Rightarrow> rstate \<times> string list \<times> string list \<Rightarrow>
     error + (rstate \<times> string list \<times> string list)"
  and translate_visit_list ::
    "node \<Rightarrow> path \<Rightarrow> ptree list \<Rightarrow> string \<Rightarrow> rstate \<times> string list \<times> string list \<Rightarrow>
     error + (rstate \<times> string list \<times> string list)"
where
  "translate_visit root np (PatternTreeNode name init children target rest) base acc =
     (case translate_step root np (PatternTreeNode name init children target rest) base acc of
        Inl e \<Rightarrow> Inl e
      | Inr (acc1, base2) \<Rightarrow> translate_visit_list root np children base2 acc1)"
| "translate_visit_list root np [] base acc = Inr acc"
| "translate_visit_list root np (c # cs) base acc =
     (case translate_visit root np c base acc of
        Inl e \<Rightarrow> Inl e
      | Inr acc1 \<Rightarrow> translate_visit_list root np cs base acc1)"
  by pat_completeness auto
termination
  by (relation "measure (\<lambda>x. case x of
          Inl (root, np, tree, base, acc) \<Rightarrow> size tree
        | Inr (root, np, trees, base, acc) \<Rightarrow> size_list size trees)") auto

definition translatePattern ::
  "node \<Rightarrow> rstate \<Rightarrow> node \<Rightarrow> path \<Rightarrow> string \<Rightarrow> error + (string list \<times> rstate)"
where
  "translatePattern root st pat np base =
     then_do (createPatternTree st pat np (PatternTreeNode [] None [] [] False)) (\<lambda>tree.
     then_do (translate_visit root np tree base (st, [], [])) (\<lambda>(st1, outer, inner).
       Inr (outer, st1)))"

section \<open>The rewriting rules of the replacer\<close>

text \<open>
  A rule returns the replacement text, or \<open>None\<close> for \<^verbatim>\<open>undefined\<close>, and the new state.
  Its arguments are the source text, the root of the tree, and the path and the node it
  is called on.
\<close>

definition ret :: "string \<Rightarrow> rstate \<Rightarrow> error + (string option \<times> rstate)" where
  "ret t st = Inr (Some t, st)"

definition no_text :: "rstate \<Rightarrow> error + (string option \<times> rstate)" where
  "no_text st = Inr (None, st)"

definition parent_of :: "node \<Rightarrow> path \<Rightarrow> (node \<times> path) option" where
  "parent_of root p =
     (case p of [] \<Rightarrow> None | i # q \<Rightarrow> map_option (\<lambda>n. (n, q)) (node_at root q))"

definition DoWhileStatement :: "string \<Rightarrow> path \<Rightarrow> node \<Rightarrow> rstate \<Rightarrow> error + (string option \<times> rstate)" where
  "DoWhileStatement input p n st =
     (let text = stringify input st p n
      in if js_slice text (-1) (int (length text)) \<noteq> '';'' then ret (text @ '';'') st
         else no_text st)"

text \<open>\<^verbatim>\<open>ForOfStatement(node)\<close>.\<close>

definition ForOfStatement ::
  "int list \<Rightarrow> node \<Rightarrow> path \<Rightarrow> node \<Rightarrow> rstate \<Rightarrow> error + (string option \<times> rstate)"
where
  "ForOfStatement lines root p n st =
     then_do (addTempVar root st p None False) (\<lambda>(iter, st1).
     then_do (addTempVar root st1 p None False) (\<lambda>(iterResult, st2).
     then_do (need (child n p ''right'')) (\<lambda>(right, rp).
     then_do (need (child n p ''left'')) (\<lambda>(left, lp).
     then_do
       (if ntype left = ''VariableDeclaration'' then
          then_do (need (children_of left lp ''declarations'')) (\<lambda>decls.
          then_do (need (case decls of [] \<Rightarrow> None | d # _ \<Rightarrow> d)) (\<lambda>(decl, dp).
          then_do (need (child decl dp ''pattern'')) (\<lambda>(pat, pp).
            Inr (text_of st2 lp, js_str (str_field pat ''value'')))))
        else Inr ([], text_of st2 lp)) (\<lambda>(head, v).
     then_do (need (child n p ''body'')) (\<lambda>(body, bp).
       (let out = iter @ '' = _es6now.iterator('' @ text_of st2 rp @ ''); '' @
                  ''for ('' @ head @
                  ''; '' @ iterResult @ '' = '' @ iter @ ''.next()'' @
                  '', '' @ v @ '' = '' @ iterResult @ ''.value'' @
                  '', !'' @ iterResult @ ''.done'' @
                  '';) '';
            out1 = syncNewlines lines (cur_start st2 lp left) (cur_start st2 bp body) out
        in ret (out1 @ text_of st2 bp) st2)))))))"

text \<open>\<^verbatim>\<open>Module(node)\<close>, which \<^verbatim>\<open>Script(node)\<close> calls. An array is a true condition.\<close>

definition Module_rule :: "string \<Rightarrow> path \<Rightarrow> node \<Rightarrow> rstate \<Rightarrow> error + (string option \<times> rstate)" where
  "Module_rule input p n st =
     (let inserted =
            (if createThisBinding (ann st p) then [''var __this = this;''] else []) @
            (if tempVars (ann st p) \<noteq> None then [tempVars_text st p] else [])
      in if length inserted > 0
         then ret (join '' '' inserted @ '' '' @ stringify input st p n) st
         else no_text st)"

text \<open>\<^verbatim>\<open>restParamVar(node)\<close>.\<close>

definition restParamVar :: "node \<Rightarrow> path \<Rightarrow> error + string" where
  "restParamVar fn fp =
     then_do (need (children_of fn fp ''params'')) (\<lambda>params.
     then_do (need (if params = [] then None else last params)) (\<lambda>(lastp, lp).
     then_do (need (child lastp lp ''identifier'')) (\<lambda>(ident, ip).
       Inr (''var '' @ js_str (str_field ident ''value'') @ '' = '' @
            ''_es6now.rest(arguments, '' @ show_nat (length params - 1) @ '')'' @ '';''))))"

text \<open>The loop of \<^verbatim>\<open>functionInsert\<close> over the parameters.\<close>

fun functionInsert_params ::
  "node \<Rightarrow> (node \<times> path) option list \<Rightarrow> rstate \<times> string list \<Rightarrow> error + (rstate \<times> string list)"
where
  "functionInsert_params root [] acc = Inr acc"
| "functionInsert_params root (None # rest) acc = Inl TypeError"
| "functionInsert_params root (Some (param, pp) # rest) acc =
     (case child param pp ''pattern'' of
        None \<Rightarrow> functionInsert_params root rest acc
      | Some (pat, patp) \<Rightarrow>
          (case (let name = text_of (fst acc) pp;
                     inserted1 =
                       (case child param pp ''initializer'' of
                          Some (init, ip) \<Rightarrow>
                            snd acc @ [''if ('' @ name @ '' === void 0) '' @ name @ '' = '' @
                                       text_of (fst acc) ip @ '';'']
                        | None \<Rightarrow> snd acc)
                 in if isPattern pat then
                      then_do (translatePattern root (fst acc) pat patp name) (\<lambda>(list, st1).
                        Inr (st1, inserted1 @ [''var '' @ join '', '' list @ '';'']))
                    else Inr (fst acc, inserted1)) of
             Inl e \<Rightarrow> Inl e
           | Inr acc1 \<Rightarrow> functionInsert_params root rest acc1))"

text \<open>\<^verbatim>\<open>functionInsert(node)\<close>, for the function at path \<open>fp\<close>.\<close>

definition functionInsert :: "node \<Rightarrow> path \<Rightarrow> node \<Rightarrow> rstate \<Rightarrow> error + (string \<times> rstate)" where
  "functionInsert root fp fn st =
     (let inserted0 = (if createThisBinding (ann st fp) then [''var __this = this;''] else [])
      in then_do
           (if createRestBinding (ann st fp)
            then then_do (restParamVar fn fp) (\<lambda>t. Inr (inserted0 @ [t]))
            else Inr inserted0) (\<lambda>inserted1.
         then_do (need (children_of fn fp ''params'')) (\<lambda>params.
         then_do (functionInsert_params root params (st, inserted1)) (\<lambda>(st1, inserted2).
           (let temps = tempVars_text st1 fp;
                inserted3 = (if temps \<noteq> [] then temps # inserted2 else inserted2)
            in Inr (join '' '' inserted3, st1))))))"

definition FunctionBody ::
  "string \<Rightarrow> node \<Rightarrow> path \<Rightarrow> node \<Rightarrow> rstate \<Rightarrow> error + (string option \<times> rstate)"
where
  "FunctionBody input root p n st =
     then_do (need (parent_of root p)) (\<lambda>(fn, fp).
     then_do (functionInsert root fp fn st) (\<lambda>(insert, st1).
       if insert \<noteq> []
       then ret (''{ '' @ insert @ '' '' @ drop 1 (stringify input st1 p n)) st1
       else no_text st1))"

definition FormalParameter :: "node \<Rightarrow> path \<Rightarrow> node \<Rightarrow> rstate \<Rightarrow> error + (string option \<times> rstate)" where
  "FormalParameter root p n st =
     then_do (need (child n p ''pattern'')) (\<lambda>(pat, pp).
       if isPattern pat
       then then_do (addTempVar root st p None True) (\<lambda>(name, st1). ret name st1)
       else ret (text_of st pp) st)"

definition RestParameter :: "node \<Rightarrow> path \<Rightarrow> node \<Rightarrow> rstate \<Rightarrow> error + (string option \<times> rstate)" where
  "RestParameter root p n st =
     then_do (need (parent_of root p)) (\<lambda>(par, parp).
       (let st1 = update_ann parp (\<lambda>a. a\<lparr>createRestBinding := True\<rparr>) st
        in then_do (need (children_of par parp ''params'')) (\<lambda>params.
             if length params > 1 then
               then_do (need (params ! (length params - 2))) (\<lambda>(prev, prevp).
                 ret [] (update_ann p (\<lambda>a. a\<lparr>a_start := Some (nend prev)\<rparr>) st1))
             else ret [] st1)))"

text \<open>\<^verbatim>\<open>asyncFunction(ident, params, body)\<close>, on the text of the identifier if there is one.\<close>

definition asyncFunction ::
  "string \<Rightarrow> string option \<Rightarrow> (int \<times> int \<times> string) list \<Rightarrow> string \<Rightarrow> string"
where
  "asyncFunction input ident params body =
     (let head = ''function'' @ (case ident of Some t \<Rightarrow> '' '' @ t | None \<Rightarrow> []);
          outerParams = join '', '' (map (\<lambda>i. ''__'' @ show_nat i) [0 ..< length params])
      in head @ ''('' @ outerParams @ '') { '' @
         ''try { return _es6now.async(function*('' @ joinList input params @ '') '' @
         body @ ''.apply(this, arguments)); '' @
         ''} catch (x) { return Promise.reject(x); } }'')"

definition ArrowFunction ::
  "string \<Rightarrow> node \<Rightarrow> path \<Rightarrow> node \<Rightarrow> rstate \<Rightarrow> error + (string option \<times> rstate)"
where
  "ArrowFunction input root p n st =
     then_do (need (child n p ''body'')) (\<lambda>(body, bp).
     then_do
       (if ntype body \<noteq> ''FunctionBody'' then
          then_do (functionInsert root p n st) (\<lambda>(insert, st1).
            Inr (''{ '' @ (if insert \<noteq> [] then insert @ '' '' else insert) @
                 ''return '' @ text_of st bp @ ''; }'', st1))
        else Inr (text_of st bp, st)) (\<lambda>(body_text, st1).
     then_do (need (children_of n p ''params'')) (\<lambda>params.
     then_do (node_items st1 params) (\<lambda>items.
       if str_field n ''kind'' = Some ''async''
       then ret (''('' @ asyncFunction input None items body_text @ '')'') st1
       else ret (''(function('' @ joinList input items @ '') '' @ body_text @ '')'') st1))))"

lemma parentFunction_shorter: "parentFunction root p = Some q \<Longrightarrow> length q < length p"
  by (induction p) (auto split: option.splits if_splits)

text \<open>
  The loop of \<^verbatim>\<open>ThisExpression\<close>: every enclosing function above \<open>fn\<close> that is not an
  arrow function is flagged, up to the program.
\<close>

function ThisExpression_loop :: "node \<Rightarrow> path \<Rightarrow> rstate \<Rightarrow> rstate" where
  "ThisExpression_loop root fn st =
     (case parentFunction root fn of
        None \<Rightarrow> st
      | Some fn' \<Rightarrow>
          ThisExpression_loop root fn'
            (case node_at root fn' of
               None \<Rightarrow> st
             | Some f \<Rightarrow>
                 if ntype f \<noteq> ''ArrowFunction''
                 then update_ann fn' (\<lambda>a. a\<lparr>createThisBinding := True\<rparr>) st
                 else st))"
  by pat_completeness auto
termination
  by (relation "measure (\<lambda>(root, fn, st). length fn)") (auto dest: parentFunction_shorter)

definition ThisExpression :: "node \<Rightarrow> path \<Rightarrow> node \<Rightarrow> rstate \<Rightarrow> error + (string option \<times> rstate)" where
  "ThisExpression root p n st =
     then_do (need (parentFunction root p)) (\<lambda>fn.
     then_do (need (node_at root fn)) (\<lambda>f.
       if ntype f = ''ArrowFunction'' then ret ''__this'' (ThisExpression_loop root fn st)
       else no_text st))"

definition UnaryExpression_rule :: "path \<Rightarrow> node \<Rightarrow> rstate \<Rightarrow> error + (string option \<times> rstate)" where
  "UnaryExpression_rule p n st =
     (if str_field n ''operator'' \<noteq> Some ''await'' then no_text st
      else then_do (need (child n p ''expression'')) (\<lambda>(e, ep).
             ret (''(yield '' @ text_of st ep @ '')'') st))"

text \<open>\<^verbatim>\<open>FunctionDeclaration(node)\<close> and \<^verbatim>\<open>FunctionExpression(node)\<close> have the same body.\<close>

definition FunctionDeclaration ::
  "string \<Rightarrow> path \<Rightarrow> node \<Rightarrow> rstate \<Rightarrow> error + (string option \<times> rstate)"
where
  "FunctionDeclaration input p n st =
     (if str_field n ''kind'' = Some ''async'' then
        then_do (need (children_of n p ''params'')) (\<lambda>params.
        then_do (node_items st params) (\<lambda>items.
        then_do (need (child n p ''body'')) (\<lambda>(body, bp).
          ret (asyncFunction input
                 (case child n p ''identifier'' of Some (i, ip) \<Rightarrow> Some (text_of st ip)
                  | None \<Rightarrow> None)
                 items (text_of st bp)) st)))
      else no_text st)"

definition MethodDefinition ::
  "string \<Rightarrow> path \<Rightarrow> node \<Rightarrow> rstate \<Rightarrow> error + (string option \<times> rstate)"
where
  "MethodDefinition input p n st =
     (if str_field n ''kind'' \<in> {Some [], Some ''async'', Some ''generator''} then
        then_do (need (child n p ''name'')) (\<lambda>(nm, np).
        then_do (need (children_of n p ''params'')) (\<lambda>params.
        then_do (node_items st params) (\<lambda>items.
        then_do (need (child n p ''body'')) (\<lambda>(body, bp).
          if str_field n ''kind'' = Some [] then
            ret (text_of st np @ '': function('' @ joinList input items @ '') '' @ text_of st bp) st
          else if str_field n ''kind'' = Some ''async'' then
            ret (text_of st np @ '': '' @ asyncFunction input None items (text_of st bp)) st
          else
            ret (text_of st np @ '': function*('' @ joinList input items @ '') '' @
                 text_of st bp) st))))
      else no_text st)"

definition PropertyDefinition :: "path \<Rightarrow> node \<Rightarrow> rstate \<Rightarrow> error + (string option \<times> rstate)" where
  "PropertyDefinition p n st =
     (if field n ''expression'' = Some Null then
        then_do (need (child n p ''name'')) (\<lambda>(nm, np).
          ret (text_of st np @ '': '' @ text_of st np) st)
      else no_text st)"

text \<open>\<^verbatim>\<open>MemberExpression(node)\<close>, which \<^verbatim>\<open>CallExpression\<close> also calls.\<close>

definition MemberExpression :: "path \<Rightarrow> node \<Rightarrow> rstate \<Rightarrow> error + (string option \<times> rstate)" where
  "MemberExpression p n st =
     (if isSuperLookup (ann st p) then
        then_do (need (child n p ''property'')) (\<lambda>(prop, pp).
        then_do (need (child n p ''object'')) (\<lambda>(obj, op).
          ret (text_of st op @
               (if field n ''computed'' = Some (Flag True) then ''['' @ text_of st pp @ '']''
                else ''.'' @ text_of st pp)) st))
      else no_text st)"

text \<open>\<^verbatim>\<open>wrapComputed(node)\<close> as \<^verbatim>\<open>ObjectLiteral(node)\<close> calls it, without a text.\<close>

definition ObjectLiteral :: "string \<Rightarrow> path \<Rightarrow> node \<Rightarrow> rstate \<Rightarrow> error + (string option \<times> rstate)" where
  "ObjectLiteral input p n st =
     (case computedNames (ann st p) of
        None \<Rightarrow> no_text st
      | Some names \<Rightarrow>
          ret (''_es6now.computed('' @ stringify input st p n @ '', '' @ join '', '' names @ '')'')
            st)"

definition SpreadExpression :: "node \<Rightarrow> path \<Rightarrow> node \<Rightarrow> rstate \<Rightarrow> error + (string option \<times> rstate)" where
  "SpreadExpression root p n st =
     then_do (need (parent_of root p)) (\<lambda>(par, parp).
       if ntype par = ''CallExpression''
       then no_text (update_ann parp (\<lambda>a. a\<lparr>hasSpreadArg := True\<rparr>) st)
       else no_text st)"

text \<open>\<^verbatim>\<open>CallExpression(node)\<close>. The spread text is present when it is a non-empty string.\<close>

definition CallExpression ::
  "string \<Rightarrow> node \<Rightarrow> path \<Rightarrow> node \<Rightarrow> rstate \<Rightarrow> error + (string option \<times> rstate)"
where
  "CallExpression input root p n st =
     then_do
       (if hasSpreadArg (ann st p) then
          then_do (need (children_of n p ''arguments'')) (\<lambda>args.
          then_do (need (if args = [] then None else last args)) (\<lambda>(la, lap).
          then_do (need (child la lap ''expression'')) (\<lambda>(e, ep).
            if length (butlast args) > 0 then
              then_do (node_items st (butlast args)) (\<lambda>items.
                Inr (Some (''['' @ joinList input items @ ''].concat('' @ text_of st ep @ '')''),
                     Some (butlast args)))
            else Inr (Some (text_of st ep), Some (butlast args)))))
        else Inr (None, children_of n p ''arguments'')) (\<lambda>(spread, args).
     if isSuperCall (ann st p) then
       then_do
         (if truthy spread then Inr (''this, '' @ js_str spread)
          else then_do (need args) (\<lambda>args.
                 if length args > 0
                 then then_do (node_items st args) (\<lambda>items. Inr (''this, '' @ joinList input items))
                 else Inr ''this'')) (\<lambda>argText.
       then_do (need (child n p ''callee'')) (\<lambda>(callee, cp).
         ret (text_of st cp @ ''.'' @ (if truthy spread then ''apply'' else ''call'') @
              ''('' @ argText @ '')'') st))
     else if truthy spread then
       then_do (need (child n p ''callee'')) (\<lambda>(callee, cp).
       then_do
         (if ntype callee = ''MemberExpression'' then
            then_do (addTempVar root st p None False) (\<lambda>(argText, st1).
            then_do (need (child callee cp ''object'')) (\<lambda>(obj, op).
              (let st2 = update_ann op
                           (\<lambda>a. a\<lparr>a_text := Some (''('' @ argText @ '' = '' @ text_of st1 op @ '')'')\<rparr>)
                           st1
               in then_do (MemberExpression cp callee st2) (\<lambda>(m, st3).
                    (let t = (if truthy m then js_str m else stringify input st3 cp callee)
                     in Inr (argText, update_ann cp (\<lambda>a. a\<lparr>a_text := Some t\<rparr>) st3))))))
          else Inr (''void 0'', st)) (\<lambda>(argText, st4).
         ret (text_of st4 cp @ ''.apply('' @ argText @ '', '' @ js_str spread @ '')'') st4))
     else no_text st)"

definition VariableDeclarator :: "node \<Rightarrow> path \<Rightarrow> node \<Rightarrow> rstate \<Rightarrow> error + (string option \<times> rstate)" where
  "VariableDeclarator root p n st =
     then_do (need (child n p ''pattern'')) (\<lambda>(pat, pp).
       if \<not> isPattern pat then no_text st
       else
         then_do (need (child n p ''initializer'')) (\<lambda>(init, ip).
         then_do (translatePattern root st pat pp (text_of st ip)) (\<lambda>(list, st1).
           ret (join '', '' list) st1)))"

text \<open>\<^verbatim>\<open>unwrapParens(node)\<close>; \<open>None\<close> is a missing expression.\<close>

function unwrapParens :: "node \<Rightarrow> path \<Rightarrow> (node \<times> path) option" where
  "unwrapParens n p =
     (if ntype n = ''ParenExpression'' then
        (case child n p ''expression'' of
           None \<Rightarrow> None
         | Some (e, ep) \<Rightarrow> unwrapParens e ep)
      else Some (n, p))"
  by pat_completeness auto
termination
  by (relation "measure (\<lambda>(n, p). size n)") (auto dest: child_size)

definition AssignmentExpression :: "node \<Rightarrow> path \<Rightarrow> node \<Rightarrow> rstate \<Rightarrow> error + (string option \<times> rstate)" where
  "AssignmentExpression root p n st =
     then_do (need (child n p ''left'')) (\<lambda>(l, lp).
     then_do (need (unwrapParens l lp)) (\<lambda>(left, leftp).
       if \<not> isPattern left then no_text st
       else
         then_do (addTempVar root st p None False) (\<lambda>(temp, st1).
         then_do (translatePattern root st1 left leftp temp) (\<lambda>(list, st2).
         then_do (need (child n p ''right'')) (\<lambda>(r, rp).
           ret (''('' @ join '', '' ([temp @ '' = '' @ text_of st2 rp] @ list @ [temp]) @ '')'')
             st2)))))"

section \<open>Modules, imports and exports\<close>

text \<open>
  \<^verbatim>\<open>RESERVED_WORD.test(k)\<close>: the pattern is anchored at both ends, so it holds when
  \<open>k\<close> is one of the words.
\<close>

definition RESERVED_WORD :: "string \<Rightarrow> bool" where
  "RESERVED_WORD k \<longleftrightarrow>
     k \<in> set [''break'', ''case'', ''catch'', ''class'', ''const'', ''continue'', ''debugger'',
              ''default'', ''delete'', ''do'', ''else'', ''enum'', ''export'', ''extends'',
              ''false'', ''finally'', ''for'', ''function'', ''if'', ''import'', ''in'',
              ''instanceof'', ''new'', ''null'', ''return'', ''super'', ''switch'', ''this'',
              ''throw'', ''true'', ''try'', ''typeof'', ''var'', ''void'', ''while'', ''with'',
              ''implements'', ''private'', ''public'', ''interface'', ''package'', ''let'',
              ''protected'', ''static'', ''yield'']"

text \<open>\<^verbatim>\<open>url.trim()\<close> on 8-bit characters, and the two patterns on a module URL.\<close>

definition is_js_space :: "char \<Rightarrow> bool" where
  "is_js_space c \<longleftrightarrow>
     c \<in> {CHR 0x09, CHR 0x0A, CHR 0x0B, CHR 0x0C, CHR 0x0D, CHR 0x20, CHR 0xA0}"

definition js_trim :: "string \<Rightarrow> string" where
  "js_trim s = rev (dropWhile is_js_space (rev (dropWhile is_js_space s)))"

definition is_ascii_letter :: "char \<Rightarrow> bool" where
  "is_ascii_letter c \<longleftrightarrow>
     (65 \<le> (of_char c :: nat) \<and> (of_char c :: nat) \<le> 90) \<or>
     (97 \<le> (of_char c :: nat) \<and> (of_char c :: nat) \<le> 122)"

definition to_lower :: "char \<Rightarrow> char" where
  "to_lower c =
     (if 65 \<le> (of_char c :: nat) \<and> (of_char c :: nat) \<le> 90 then char_of (of_char c + (32 :: nat))
      else c)"

text \<open>\<^verbatim>\<open>/^(?:npm|node):/i\<close>: the length of the match at the start, if there is one.\<close>

definition NODE_SCHEMA :: "string \<Rightarrow> nat option" where
  "NODE_SCHEMA url =
     (if map to_lower (take 4 url) = ''npm:'' then Some 4
      else if map to_lower (take 5 url) = ''node:'' then Some 5
      else None)"

text \<open>\<^verbatim>\<open>/^[a-z]+:/i\<close>.\<close>

definition HAS_SCHEMA :: "string \<Rightarrow> bool" where
  "HAS_SCHEMA url \<longleftrightarrow>
     takeWhile is_ascii_letter url \<noteq> [] \<and>
     take 1 (dropWhile is_ascii_letter url) = '':''"

text \<open>\<^verbatim>\<open>moduleIdent(url)\<close> with the default \<^verbatim>\<open>mapURI\<close>, the identity.\<close>

definition moduleIdent :: "rstate \<Rightarrow> string \<Rightarrow> string \<times> rstate" where
  "moduleIdent st url0 =
     (let url1 = js_trim url0;
          url = (case NODE_SCHEMA url1 of
                   Some k \<Rightarrow> drop k url1
                 | None \<Rightarrow> if \<not> HAS_SCHEMA url1 \<and> take 1 url1 \<noteq> ''/'' then ''./'' @ url1
                           else url1)
      in case map_of (imports_map st) url of
           Some ident \<Rightarrow> (ident, st)
         | None \<Rightarrow>
             (''_M'' @ show_nat (uid st),
              st\<lparr>imports_map := imports_map st @ [(url, ''_M'' @ show_nat (uid st))],
                 uid := Suc (uid st),
                 dependencies := dependencies st @ [url]\<rparr>))"

definition modulePath :: "string \<Rightarrow> rstate \<Rightarrow> node \<Rightarrow> path \<Rightarrow> error + (string \<times> rstate)" where
  "modulePath input st n p =
     (if ntype n = ''StringLiteral''
      then then_do (need (str_field n ''value'')) (\<lambda>v. Inr (moduleIdent st v))
      else Inr (stringify input st p n, st))"

definition ModuleImport :: "string \<Rightarrow> path \<Rightarrow> node \<Rightarrow> rstate \<Rightarrow> error + (string option \<times> rstate)" where
  "ModuleImport input p n st =
     then_do (need (child n p ''identifier'')) (\<lambda>(i, ip).
     then_do (need (child n p ''from'')) (\<lambda>(f, fp).
     then_do (modulePath input st f fp) (\<lambda>(m, st1).
       ret (''var '' @ text_of st ip @ '' = '' @ m @ '';'') st1)))"

definition ModuleDeclarationBegin :: "rstate \<Rightarrow> rstate" where
  "ModuleDeclarationBegin st = st\<lparr>exportStack := [] # exportStack st\<rparr>"

definition strictDirective :: "rstate \<Rightarrow> string" where
  "strictDirective st = (if isStrict st then [] else '' \"use strict\";'')"

text \<open>\<^verbatim>\<open>text.replace(/^\{|\}$/g, "")\<close>: an opening brace at the start and a closing brace
  at the end are removed.\<close>

definition strip_braces :: "string \<Rightarrow> string" where
  "strip_braces t =
     (let t1 = (if take 1 t = ''{'' then drop 1 t else t)
      in if t1 \<noteq> [] \<and> last t1 = CHR ''}'' then butlast t1 else t1)"

text \<open>\<^verbatim>\<open>this.exports\<close>, the map on top of the stack, if there is one.\<close>

definition current_exports :: "rstate \<Rightarrow> (string \<times> string) list option" where
  "current_exports st = (case exportStack st of [] \<Rightarrow> None | e # _ \<Rightarrow> Some e)"

text \<open>\<^verbatim>\<open>ModuleDeclaration(node)\<close>: every export is written with a dot.\<close>

definition ModuleDeclaration :: "path \<Rightarrow> node \<Rightarrow> rstate \<Rightarrow> error + (string option \<times> rstate)" where
  "ModuleDeclaration p n st =
     then_do (need (child n p ''identifier'')) (\<lambda>(i, ip).
     then_do (need (child n p ''body'')) (\<lambda>(b, bp).
     then_do (need (current_exports st)) (\<lambda>exports.
       ret (''var '' @ text_of st ip @ '' = (function(exports) {'' @
            strictDirective st @ '' '' @
            strip_braces (text_of st bp) @
            concat (map (\<lambda>(k, v). ''exports.'' @ k @ '' = '' @ v @ ''; '') exports) @
            ''return exports; }).call(this, {});'')
         (st\<lparr>exportStack := tl (exportStack st)\<rparr>))))"

text \<open>\<^verbatim>\<open>exports[k] = v\<close> on the current map: a new key goes to the end.\<close>

definition set_export :: "string \<Rightarrow> string \<Rightarrow> rstate \<Rightarrow> error + rstate" where
  "set_export k v st =
     (case exportStack st of
        [] \<Rightarrow> Inl TypeError
      | e # rest \<Rightarrow>
          Inr (st\<lparr>exportStack :=
                 (if k \<in> fst ` set e then map (\<lambda>(k', v'). if k' = k then (k', v) else (k', v')) e
                  else e @ [(k, v)]) # rest\<rparr>))"

fun export_declarations :: "(node \<times> path) option list \<Rightarrow> rstate \<Rightarrow> error + rstate" where
  "export_declarations [] st = Inr st"
| "export_declarations (None # rest) st = Inl TypeError"
| "export_declarations (Some (decl, dp) # rest) st =
     (case child decl dp ''pattern'' of
        None \<Rightarrow> Inl TypeError
      | Some (pat, pp) \<Rightarrow>
          (case set_export (text_of st pp) (text_of st pp) st of
             Inl e \<Rightarrow> Inl e
           | Inr st1 \<Rightarrow> export_declarations rest st1))"

fun export_specifiers :: "string option \<Rightarrow> (node \<times> path) option list \<Rightarrow> rstate \<Rightarrow> error + rstate" where
  "export_specifiers fromPath [] st = Inr st"
| "export_specifiers fromPath (None # rest) st = Inl TypeError"
| "export_specifiers fromPath (Some (spec, sp) # rest) st =
     (case child spec sp ''local'' of
        None \<Rightarrow> Inl TypeError
      | Some (l, lp) \<Rightarrow>
          (case set_export
                  (case child spec sp ''exported'' of
                     Some (e, ep) \<Rightarrow> text_of st ep | None \<Rightarrow> text_of st lp)
                  (case fromPath of
                     Some f \<Rightarrow> f @ ''.'' @ text_of st lp | None \<Rightarrow> text_of st lp) st of
             Inl e \<Rightarrow> Inl e
           | Inr st1 \<Rightarrow> export_specifiers fromPath rest st1))"

definition ExportDeclaration ::
  "string \<Rightarrow> path \<Rightarrow> node \<Rightarrow> rstate \<Rightarrow> error + (string option \<times> rstate)"
where
  "ExportDeclaration input p n st =
     then_do (need (child n p ''declaration'')) (\<lambda>(binding, bp).
       if ntype binding = ''VariableDeclaration'' then
         then_do (need (children_of binding bp ''declarations'')) (\<lambda>decls.
         then_do (export_declarations decls st) (\<lambda>st1.
           ret (text_of st1 bp @ '';'') st1))
       else if ntype binding \<in> {''FunctionDeclaration'', ''ClassDeclaration'', ''ModuleDeclaration''}
       then
         then_do (need (child binding bp ''identifier'')) (\<lambda>(i, ip).
         then_do (set_export (text_of st ip) (text_of st ip) st) (\<lambda>st1.
           ret (text_of st1 bp) st1))
       else
         then_do
           (case child binding bp ''from'' of
              Some (f, fp) \<Rightarrow> then_do (modulePath input st f fp) (\<lambda>(m, st1). Inr (Some m, st1))
            | None \<Rightarrow> Inr (None, st)) (\<lambda>(fromPath, st1).
           case children_of binding bp ''specifiers'' of
             None \<Rightarrow>
               ret (''Object.keys('' @ (case fromPath of Some f \<Rightarrow> f | None \<Rightarrow> []) @
                    '').forEach(function(k) { exports[k] = '' @
                    (case fromPath of Some f \<Rightarrow> f | None \<Rightarrow> []) @ ''[k]; });'') st1
           | Some specs \<Rightarrow>
               then_do (export_specifiers fromPath specs st1) (\<lambda>st2. ret [] st2)))"

fun import_specifiers ::
  "rstate \<Rightarrow> string \<Rightarrow> (node \<times> path) option list \<Rightarrow> error + (int \<times> int \<times> string) list"
where
  "import_specifiers st moduleSpec [] = Inr []"
| "import_specifiers st moduleSpec (None # rest) = Inl TypeError"
| "import_specifiers st moduleSpec (Some (spec, sp) # rest) =
     (case child spec sp ''imported'' of
        None \<Rightarrow> Inl TypeError
      | Some (imported, ip) \<Rightarrow>
          (case import_specifiers st moduleSpec rest of
             Inl e \<Rightarrow> Inl e
           | Inr items \<Rightarrow>
               Inr ((cur_start st sp spec, nend spec,
                     (case child spec sp ''local'' of
                        Some (l, lp) \<Rightarrow> text_of st lp | None \<Rightarrow> text_of st ip) @
                     '' = '' @ moduleSpec @ ''.'' @ text_of st ip) # items)))"

definition ImportDeclaration ::
  "string \<Rightarrow> path \<Rightarrow> node \<Rightarrow> rstate \<Rightarrow> error + (string option \<times> rstate)"
where
  "ImportDeclaration input p n st =
     then_do (need (child n p ''from'')) (\<lambda>(f, fp).
     then_do (modulePath input st f fp) (\<lambda>(moduleSpec, st1).
     then_do
       (case children_of n p ''specifiers'' of
          None \<Rightarrow> Inr []
        | Some specs \<Rightarrow> import_specifiers st1 moduleSpec specs) (\<lambda>list.
       if length list = 0 then ret [] st1
       else ret (''var '' @ joinList input list @ '';'') st1)))"

definition ImportDefaultDeclaration ::
  "string \<Rightarrow> path \<Rightarrow> node \<Rightarrow> rstate \<Rightarrow> error + (string option \<times> rstate)"
where
  "ImportDefaultDeclaration input p n st =
     then_do (need (child n p ''from'')) (\<lambda>(f, fp).
     then_do (modulePath input st f fp) (\<lambda>(moduleSpec, st1).
     then_do (need (child n p ''identifier'')) (\<lambda>(i, ip).
       ret (''var '' @ text_of st1 ip @ '' = '' @ moduleSpec @ ''['' @ [CHR 0x27] @ ''default'' @
            [CHR 0x27] @ ''];'') st1)))"

definition ComprehensionFor :: "path \<Rightarrow> node \<Rightarrow> rstate \<Rightarrow> error + (string option \<times> rstate)" where
  "ComprehensionFor p n st =
     then_do (need (child n p ''left'')) (\<lambda>(l, lp).
     then_do (need (child n p ''right'')) (\<lambda>(r, rp).
       ret (''for (var '' @ text_of st lp @ '' of '' @ text_of st rp @ '')'') st))"

section \<open>The traversal\<close>

text \<open>
  The rule of a node type, \<^verbatim>\<open>this[node.type]\<close>. The rules for classes, \<^verbatim>\<open>super\<close>,
  computed property names, template strings and array and generator comprehensions are
  not embedded, and a tree that holds such a node is not rewritten by the model.
\<close>

definition rule ::
  "string \<Rightarrow> int list \<Rightarrow> node \<Rightarrow> path \<Rightarrow> node \<Rightarrow> rstate \<Rightarrow> error + (string option \<times> rstate)"
where
  "rule input lines root p n st =
     (let t = ntype n
      in if t = ''DoWhileStatement'' then DoWhileStatement input p n st
         else if t = ''ForOfStatement'' then ForOfStatement lines root p n st
         else if t = ''Module'' \<or> t = ''Script'' then Module_rule input p n st
         else if t = ''FunctionBody'' then FunctionBody input root p n st
         else if t = ''FormalParameter'' then FormalParameter root p n st
         else if t = ''RestParameter'' then RestParameter root p n st
         else if t = ''ObjectLiteral'' then ObjectLiteral input p n st
         else if t = ''MethodDefinition'' then MethodDefinition input p n st
         else if t = ''PropertyDefinition'' then PropertyDefinition p n st
         else if t = ''ModuleImport'' then ModuleImport input p n st
         else if t = ''ModuleDeclaration'' then ModuleDeclaration p n st
         else if t = ''ImportDeclaration'' then ImportDeclaration input p n st
         else if t = ''ImportDefaultDeclaration'' then ImportDefaultDeclaration input p n st
         else if t = ''ExportDeclaration'' then ExportDeclaration input p n st
         else if t = ''CallExpression'' then CallExpression input root p n st
         else if t = ''SpreadExpression'' then SpreadExpression root p n st
         else if t = ''MemberExpression'' then MemberExpression p n st
         else if t = ''ArrowFunction'' then ArrowFunction input root p n st
         else if t = ''ThisExpression'' then ThisExpression root p n st
         else if t = ''UnaryExpression'' then UnaryExpression_rule p n st
         else if t = ''FunctionDeclaration'' \<or> t = ''FunctionExpression''
           then FunctionDeclaration input p n st
         else if t = ''ComprehensionFor'' then ComprehensionFor p n st
         else if t = ''VariableDeclarator'' then VariableDeclarator root p n st
         else if t = ''AssignmentExpression'' then AssignmentExpression root p n st
         else if t \<in> {''ComputedPropertyName'', ''SuperExpression'', ''ClassDeclaration'',
                       ''ClassExpression'', ''ClassElement'', ''ClassBody'',
                       ''TemplateExpression'', ''ArrayComprehension'',
                       ''GeneratorComprehension''}
           then Inl Unsupported
         else no_text st)"

text \<open>
  The first half of \<^verbatim>\<open>visit(node)\<close>, before the children: the text is reset, the
  pre-order method is called, and the implicitly strict node types set the flag. The
  fourth type name is spelled as in the source.
\<close>

definition visit_enter :: "path \<Rightarrow> node \<Rightarrow> rstate \<Rightarrow> rstate" where
  "visit_enter p n st =
     (let st1 = update_ann p (\<lambda>a. a\<lparr>a_text := None\<rparr>) st;
          st2 = (if ntype n = ''ModuleDeclaration'' then ModuleDeclarationBegin st1 else st1)
      in if ntype n \<in> {''Module'', ''ModuleDeclaration'', ''ClassDeclaration'', ''ClassExpresion''}
         then st2\<lparr>isStrict := True\<rparr> else st2)"

text \<open>
  The second half, after the children: strictness is restored, the rule is called,
  the default rendering stands in for a missing text, and the text is synchronised with
  the lines of the node's span.
\<close>

definition visit_leave ::
  "string \<Rightarrow> int list \<Rightarrow> node \<Rightarrow> path \<Rightarrow> node \<Rightarrow> bool \<Rightarrow> rstate \<Rightarrow> error + rstate"
where
  "visit_leave input lines root p n strict st =
     then_do (rule input lines root p n (st\<lparr>isStrict := strict\<rparr>)) (\<lambda>(text, st1).
       (let text1 = (case text of None \<Rightarrow> stringify input st1 p n | Some t \<Rightarrow> t);
            text2 = syncNewlines lines (cur_start st1 p n) (nend n) text1
        in Inr (update_ann p (\<lambda>a. a\<lparr>a_text := Some text2\<rparr>) st1)))"

function visit :: "string \<Rightarrow> int list \<Rightarrow> node \<Rightarrow> path \<Rightarrow> node \<Rightarrow> rstate \<Rightarrow> error + rstate"
  and visit_children ::
    "string \<Rightarrow> int list \<Rightarrow> node \<Rightarrow> path \<Rightarrow> nat \<Rightarrow> node list \<Rightarrow> rstate \<Rightarrow> error + rstate"
where
  "visit input lines root p (Node t s e fs kids) st =
     (case visit_children input lines root p 0 kids (visit_enter p (Node t s e fs kids) st) of
        Inl er \<Rightarrow> Inl er
      | Inr st1 \<Rightarrow> visit_leave input lines root p (Node t s e fs kids) (isStrict st) st1)"
| "visit_children input lines root p i [] st = Inr st"
| "visit_children input lines root p i (c # cs) st =
     (case visit input lines root (i # p) c st of
        Inl er \<Rightarrow> Inl er
      | Inr st1 \<Rightarrow> visit_children input lines root p (Suc i) cs st1)"
  by pat_completeness auto
termination
  by (relation "measure (\<lambda>x. case x of
          Inl (input, lines, root, p, n, st) \<Rightarrow> size n
        | Inr (input, lines, root, p, i, ns, st) \<Rightarrow> size_list size ns)") auto

section \<open>Assembling the output\<close>

definition loadCall :: "string \<Rightarrow> string" where
  "loadCall url = ''__load('' @ JSON_stringify url @ '')''"

definition replace_head :: "rstate \<Rightarrow> string" where
  "replace_head st =
     (let head = fold (\<lambda>url head.
                         (if head \<noteq> [] then head @ '', '' else ''var '') @
                         js_str (map_of (imports_map st) url) @ '' = '' @ loadCall url)
                   (dependencies st) []
      in if head \<noteq> [] then head @ ''; '' else head)"

text \<open>
  The exports written after the body by \<^verbatim>\<open>replace\<close>: a reserved word is written in
  brackets, any other name after a dot.
\<close>

definition export_trailer :: "(string \<times> string) list \<Rightarrow> string" where
  "export_trailer exports =
     concat (map (\<lambda>(k, v).
                    [LF] @ ''exports'' @
                    (if RESERVED_WORD k then ''['' @ JSON_stringify k @ '']'' else ''.'' @ k) @
                    '' = '' @ v @ '';'') exports)"

definition initial_state :: rstate where
  "initial_state =
     \<lparr> ann = (\<lambda>p. no_annots), exportStack = [[]], imports_map = [], dependencies = [], uid = 0,
       isStrict = False \<rparr>"

definition RootNode :: "node \<Rightarrow> int \<Rightarrow> node" where
  "RootNode ast end_offset = Node ''Root'' 0 end_offset [(''root'', Ref 0)] [ast]"

text \<open>
  \<^verbatim>\<open>replace(input, options)\<close> with the default \<^verbatim>\<open>loadCall\<close> and \<^verbatim>\<open>mapURI\<close>. The
  parser is an argument: for a source text and the \<^verbatim>\<open>module\<close> option it returns the
  tree and the line table, or \<open>None\<close> when it raises a syntax error.
\<close>

definition replace ::
  "(string \<Rightarrow> bool \<Rightarrow> (node \<times> int list) option) \<Rightarrow> string \<Rightarrow> bool \<Rightarrow> error + string"
where
  "replace parse input module_opt =
     (case parse input module_opt of
        None \<Rightarrow> Inl SyntaxError
      | Some (ast, lines) \<Rightarrow>
          then_do (visit input lines (RootNode ast (int (length input))) []
                     (RootNode ast (int (length input))) initial_state) (\<lambda>st.
          then_do (need (current_exports st)) (\<lambda>exports.
            Inr (replace_head st @ text_of st [] @ export_trailer exports))))"





text \<open>
  The equations of the loops are unfolded on demand: each of them applies to its own right-hand
  side.
\<close>

declare show_nat.simps [simp del] binarySearch_loop.simps [simp del]
  createPatternTree.simps [simp del] ThisExpression_loop.simps [simp del]
  unwrapParens.simps [simp del]


definition temp_count :: "rstate \<Rightarrow> path \<Rightarrow> nat" where
  "temp_count st fn = length (case tempVars (ann st fn) of None \<Rightarrow> [] | Some l \<Rightarrow> l)"






section \<open>Syntax errors\<close>

lemma Parser_fail_column_unset: "err_column (Parser_fail lines cur peek0 msg loc) = None"
  by (simp add: Parser_fail_def Let_def new_SyntaxError_def)

text \<open>
  Claim C3 at the input \<^verbatim>\<open>)\<close>, whose first token, at offsets 0 to 1, is unexpected. The
  position of the token has line 1 and column 1, and the error raised carries the
  message, the line and the three offsets, but no column: the column of the error is
  assigned from the error itself and stays unset.
\<close>

theorem Parser_fail_unexpected_token:
  "Scanner_position [-1] \<lparr>tok_start = 0, tok_end = 1\<rparr> =
     \<lparr>pos_line = 1, pos_column = Some 1, pos_startOffset = 0, pos_endOffset = 1,
      pos_lineOffset = Some 0\<rparr> \<and>
   Parser_fail [-1] \<lparr>tok_start = 0, tok_end = 1\<rparr> None ''Unexpected token )''
       (Some \<lparr>tok_start = 0, tok_end = 1\<rparr>) =
     \<lparr>err_message = ''Unexpected token )'', err_line = Some 1, err_column = None,
      err_lineOffset = Some 0, err_startOffset = Some 0, err_endOffset = Some 1\<rparr>"
  by (simp add: Parser_fail_def Scanner_position_def binarySearch_def
      binarySearch_loop.simps array_get_def new_SyntaxError_def Let_def)


section \<open>Binary operators\<close>






section \<open>Properties of the line-sync utility\<close>

lemma CR_neq_LF [simp]: "CR \<noteq> LF" "LF \<noteq> CR"
  by (simp_all add: CR_def LF_def)

lemma countNewlines_LF_Cons [simp]: "countNewlines (LF # cs) = Suc (countNewlines cs)"
  by (cases cs) auto

lemma countNewlines_other_Cons [simp]:
  "c \<noteq> CR \<Longrightarrow> c \<noteq> LF \<Longrightarrow> countNewlines (c # cs) = countNewlines cs"
  by (cases cs) auto

lemma countNewlines_CR_Cons:
  "countNewlines (CR # cs) =
     Suc (countNewlines (if cs \<noteq> [] \<and> hd cs = LF then tl cs else cs))"
  by (cases cs) auto

text \<open>
  Concatenation loses exactly one match when a trailing carriage return meets a leading
  line feed: the two characters become a single \<^verbatim>\<open>\r\n\<close> match.
\<close>

lemma countNewlines_append:
  "countNewlines (xs @ ys) +
     (if xs \<noteq> [] \<and> last xs = CR \<and> ys \<noteq> [] \<and> hd ys = LF then 1 else 0) =
   countNewlines xs + countNewlines ys"
proof (induction xs rule: countNewlines.induct)
  case 1
  then show ?case by simp
next
  case (2 c)
  then show ?case by (cases ys) (auto simp: countNewlines_CR_Cons)
next
  case (3 c d cs)
  then show ?case by auto
qed

lemma countNewlines_replicate_LF [simp]: "countNewlines (replicate k LF) = k"
  by (induction k) auto

lemma countNewlines_last_CR: "xs \<noteq> [] \<Longrightarrow> last xs = CR \<Longrightarrow> 0 < countNewlines xs"
  by (induction xs rule: countNewlines.induct) (auto split: if_splits)

lemma countNewlines_hd_LF: "ys \<noteq> [] \<Longrightarrow> hd ys = LF \<Longrightarrow> 0 < countNewlines ys"
  by (cases ys) auto

lemma countNewlines_append_ge: "countNewlines xs \<le> countNewlines (xs @ ys)"
  using countNewlines_append [of xs ys] countNewlines_hd_LF [of ys]
  by (auto split: if_splits)

lemma countNewlines_append_ge2: "countNewlines ys \<le> countNewlines (xs @ ys)"
  using countNewlines_append [of xs ys] countNewlines_last_CR [of xs]
  by (auto split: if_splits)

lemma countNewlines_pad:
  "xs = [] \<or> last xs \<noteq> CR \<Longrightarrow> countNewlines (xs @ replicate k LF) = countNewlines xs + k"
  using countNewlines_append [of xs "replicate k LF"] by (auto split: if_splits)

text \<open>
  Claim C10, as amended. \<^verbatim>\<open>preserveNewlines(s, height)\<close> returns \<open>s\<close> unchanged when
  \<open>height \<le> 0\<close> or \<open>s\<close> already holds at least \<open>height\<close> newlines, and otherwise
  returns \<open>s\<close> followed by exactly \<open>height - countNewlines s\<close> line feeds. The count of
  the result is \<open>max (countNewlines s) height\<close> for \<open>height \<ge> 0\<close> whenever no padding
  is added or \<open>s\<close> does not end in a carriage return.
\<close>

theorem preserveNewlines_spec:
  "(height \<le> 0 \<or> height \<le> int (countNewlines s) \<longrightarrow> preserveNewlines s height = s) \<and>
   (0 < height \<and> int (countNewlines s) < height \<longrightarrow>
      preserveNewlines s height = s @ replicate (nat (height - int (countNewlines s))) LF) \<and>
   (0 \<le> height \<and> (s = [] \<or> last s \<noteq> CR \<or> height \<le> int (countNewlines s)) \<longrightarrow>
      int (countNewlines (preserveNewlines s height)) = max (int (countNewlines s)) height)"
  by (auto simp: preserveNewlines_def Let_def countNewlines_pad)

theorem preserveNewlines_spec_witness:
  "(0::int) < 2 \<and> int (countNewlines ''a'') < 2 \<and> (''a'' = [] \<or> last ''a'' \<noteq> CR) \<and>
   preserveNewlines ''a'' 2 = ''a'' @ [LF, LF] \<and>
   int (countNewlines (preserveNewlines ''a'' 2)) = 2 \<and>
   preserveNewlines ''a'' 0 = ''a''"
  using preserveNewlines_spec [of 2 "''a''"] preserveNewlines_spec [of 0 "''a''"]
  by (simp add: CR_def LF_def numeral_2_eq_2)

text \<open>
  The count claimed by C10 without the side condition fails for a text that ends in a
  carriage return: the first line feed appended joins it in one \<^verbatim>\<open>\r\n\<close> match.
\<close>

theorem preserveNewlines_count_counterexample:
  "int (countNewlines (preserveNewlines [CR] 2)) \<noteq> max (int (countNewlines [CR])) 2"
  by (simp add: preserveNewlines_def CR_def LF_def)

section \<open>Evaluation of the model and the default rendering\<close>

lemma then_do_weak_cong: "r = r' \<Longrightarrow> then_do r f = then_do r' f"
  by simp

lemma then_do_Inr [simp]: "then_do (Inr v) f = f v"
  by (simp add: then_do_def)

lemma then_do_Inl [simp]: "then_do (Inl e) f = Inl e"
  by (simp add: then_do_def)



lemma js_slice_empty [simp]: "js_slice s a a = []"
  by (simp add: js_slice_def Let_def)






section \<open>The for-of loop\<close>







lemma temp_count_update [simp]:
  "temp_count (update_ann fn (\<lambda>a. a\<lparr>tempVars := Some l\<rparr>) st) fn = length l"
  by (simp add: temp_count_def update_ann_def)




end
